theory Spec2Isabelle
  imports Complex_Main
begin

section \<open>The reduced SQP dispatcher and its adapters (SU2/opt/reducedSQP.py)\<close>

text \<open>
  The numbers of the program are kept abstract: a type \<open>'a\<close> with the operations each
  function uses (\<open>0\<close>, \<open>1\<close>, \<open>+\<close>, unary \<open>-\<close>). The theorems about sums ask for an
  additive monoid; the examples are evaluated over \<^typ>\<open>real\<close>.
\<close>

subsection \<open>Python values and exceptions\<close>

datatype error = KeyError | NameError | IndexError | UnboundLocalError | TypeError

text \<open>
  What a name of the adapters can be bound to: \<open>None\<close>, a Python list, or a one-dimensional
  numpy array. A Python list is truthy exactly when it is not empty.
\<close>

datatype 'a pyvalue = PyNone | PyList "'a list" | NdArray "'a list"

definition np_array :: "'a list \<Rightarrow> 'a pyvalue" where
  "np_array xs = NdArray xs"

definition np_zeros :: "nat \<Rightarrow> 'a::zero pyvalue" where
  "np_zeros n = NdArray (replicate n 0)"

text \<open>Unary minus: element-wise on an array, a \<open>TypeError\<close> on a list and on \<open>None\<close>.\<close>

fun neg :: "'a::uminus pyvalue \<Rightarrow> error + 'a pyvalue" where
  "neg (NdArray xs) = Inr (NdArray (map uminus xs))"
| "neg (PyList xs) = Inl TypeError"
| "neg PyNone = Inl TypeError"

text \<open>\<open>np.size\<close> of a vector is its number of elements.\<close>

definition np_size :: "'a list \<Rightarrow> nat" where
  "np_size x = length x"

text \<open>
  \<open>np.identity n\<close>: numpy allocates an \<open>n\<close> by \<open>n\<close> array of zeros and writes a one
  on the diagonal. A matrix is the list of its rows.
\<close>

definition np_identity :: "nat \<Rightarrow> 'a::{zero,one} list list" where
  "np_identity n = map (\<lambda>i. (replicate n 0)[i := 1]) [0..<n]"

subsection \<open>The project and the global state\<close>

text \<open>
  The project is owned outside this module. It gives the configuration (a dictionary) and,
  for a design-variable vector, the lists of objective contributions, of gradient and
  curvature contributions (one list per objective) and of constraint values.
\<close>

record 'a project =
  config :: "string \<rightharpoonup> string"
  obj_f :: "'a list \<Rightarrow> 'a list"
  obj_df :: "'a list \<Rightarrow> 'a list list"
  obj_ddf :: "'a list \<Rightarrow> 'a list list"
  con_ceq :: "'a list \<Rightarrow> 'a list"
  con_cieq :: "'a list \<Rightarrow> 'a list"

text \<open>
  The module-level name \<open>glob_project\<close> is declared and never bound at import, so it is
  unbound (\<open>None\<close> here) until the dispatcher binds it; \<open>stdout\<close> is what has been written
  to standard output.
\<close>

record 'a state =
  stdout :: string
  glob_project :: "'a project option"

definition sys_stdout_write :: "string \<Rightarrow> 'a state \<Rightarrow> 'a state" where
  "sys_stdout_write s st = st\<lparr>stdout := stdout st @ s\<rparr>"

subsection \<open>The Hessian fallback\<close>

definition unit_hessian :: "'a list \<Rightarrow> 'p \<Rightarrow> 'a::{zero,one} list list" where
  "unit_hessian x project = np_identity (np_size x)"

subsection \<open>The adapters\<close>

text \<open>The loop of \<open>f\<close>: \<open>for this_obj in obj_list: obj = obj + this_obj\<close>.\<close>

fun f_loop :: "'a::plus \<Rightarrow> 'a list \<Rightarrow> 'a" where
  "f_loop obj [] = obj"
| "f_loop obj (this_obj # obj_list) = f_loop (obj + this_obj) obj_list"

definition f :: "'a::{zero,plus} state \<Rightarrow> 'a list \<Rightarrow> error + 'a" where
  "f st x =
     (case glob_project st of
        None \<Rightarrow> Inl NameError
      | Some p \<Rightarrow> let obj_list = obj_f p x in Inr (f_loop 0 obj_list))"

text \<open>
  The inner loop of \<open>df\<close> and \<open>ddf\<close>: \<open>dobj[idv] = dobj[idv] + this_dv_dobj; idv += 1\<close>
  for each element of one contribution. Reading \<open>dobj[idv]\<close> beyond the end of \<open>dobj\<close>
  raises \<open>IndexError\<close>.
\<close>

fun dv_loop :: "'a::plus list \<Rightarrow> nat \<Rightarrow> 'a list \<Rightarrow> error + 'a list" where
  "dv_loop dobj idv [] = Inr dobj"
| "dv_loop dobj idv (this_dv_dobj # this_dobj) =
     (if idv < length dobj
      then dv_loop (dobj[idv := dobj ! idv + this_dv_dobj]) (idv + 1) this_dobj
      else Inl IndexError)"

text \<open>The outer loop: \<open>for this_dobj in dobj_list\<close>, with \<open>idv = 0\<close> at each contribution.\<close>

fun dobj_loop :: "'a::plus list \<Rightarrow> 'a list list \<Rightarrow> error + 'a list" where
  "dobj_loop dobj [] = Inr dobj"
| "dobj_loop dobj (this_dobj # dobj_list) =
     (case dv_loop dobj 0 this_dobj of
        Inl e \<Rightarrow> Inl e
      | Inr dobj' \<Rightarrow> dobj_loop dobj' dobj_list)"

text \<open>
  The body shared by \<open>df\<close> and \<open>ddf\<close>: \<open>dobj_list[0]\<close> raises \<open>IndexError\<close> on an empty
  list; otherwise \<open>dobj\<close> starts as \<open>[0.0] * len(dobj_list[0])\<close>.
\<close>

definition aggregate :: "'a::{zero,plus} list list \<Rightarrow> error + 'a pyvalue" where
  "aggregate dobj_list =
     (case dobj_list of
        [] \<Rightarrow> Inl IndexError
      | first # _ \<Rightarrow>
          (case dobj_loop (replicate (length first) 0) dobj_list of
             Inl e \<Rightarrow> Inl e
           | Inr dobj \<Rightarrow> Inr (np_array dobj)))"

definition df :: "'a::{zero,plus} state \<Rightarrow> 'a list \<Rightarrow> error + 'a pyvalue" where
  "df st x =
     (case glob_project st of
        None \<Rightarrow> Inl NameError
      | Some p \<Rightarrow> let dobj_list = obj_df p x in aggregate dobj_list)"

definition ddf :: "'a::{zero,plus} state \<Rightarrow> 'a list \<Rightarrow> error + 'a pyvalue" where
  "ddf st x =
     (case glob_project st of
        None \<Rightarrow> Inl NameError
      | Some p \<Rightarrow> let dobj_list = obj_ddf p x in aggregate dobj_list)"

definition feq :: "'a::zero state \<Rightarrow> 'a list \<Rightarrow> error + 'a pyvalue" where
  "feq st x =
     (case glob_project st of
        None \<Rightarrow> Inl NameError
      | Some p \<Rightarrow>
          let cons = con_ceq p x;
              cons' = (if cons \<noteq> [] then np_array cons else np_zeros 0)
          in Inr cons')"

definition fieq :: "'a::{zero,uminus} state \<Rightarrow> 'a list \<Rightarrow> error + 'a pyvalue" where
  "fieq st x =
     (case glob_project st of
        None \<Rightarrow> Inl NameError
      | Some p \<Rightarrow>
          let cons = con_cieq p x;
              cons' = (if cons \<noteq> [] then np_array cons else np_zeros 0)
          in neg cons')"

subsection \<open>The back ends and the dispatcher\<close>

text \<open>
  The three back ends (\<open>scipy.optimize.minimize\<close>, \<open>SQPconstrained\<close> and
  \<open>SQPequalconstrained\<close>) are outside this module: they are parameters. Each takes its
  arguments and the state, and gives back the state with either its result or the
  exception it raised. The handles \<open>func\<close>, \<open>f_eqcons\<close>, \<open>f_ieqcons\<close>, \<open>fprime\<close>,
  \<open>fprime_eqcons\<close> and \<open>fprime_ieqcons\<close> are passed through as they are (type \<open>'h\<close>);
  the curvature handle \<open>fdotdot\<close> has the signature of \<open>unit_hessian\<close>.
\<close>

datatype 'a bound = Finite 'a | Infinity

datatype 'a NonlinearConstraint =
  NonlinearConstraint "'a state \<Rightarrow> 'a list \<Rightarrow> error + 'a pyvalue" "'a bound" "'a bound"

record options =
  maxiter :: int
  verbose :: int

type_synonym 'a curvature = "'a list \<Rightarrow> 'a project \<Rightarrow> 'a list list"

record ('a, 'h, 'b, 'out) backends =
  minimize ::
    "('a state \<Rightarrow> 'a list \<Rightarrow> error + 'a) \<Rightarrow> 'a list \<Rightarrow> string \<Rightarrow>
     ('a state \<Rightarrow> 'a list \<Rightarrow> error + 'a pyvalue) \<Rightarrow>
     ('a state \<Rightarrow> 'a list \<Rightarrow> error + 'a pyvalue) \<Rightarrow>
     'a NonlinearConstraint list \<Rightarrow> 'b \<Rightarrow> 'a \<Rightarrow> options \<Rightarrow>
     'a state \<Rightarrow> (error + 'out) \<times> 'a state"
  SQPconstrained ::
    "'a list \<Rightarrow> 'h \<Rightarrow> 'h \<Rightarrow> 'h \<Rightarrow> 'h \<Rightarrow> 'h \<Rightarrow> 'h \<Rightarrow> 'a curvature \<Rightarrow>
     'a project \<Rightarrow> int \<Rightarrow> 'a \<Rightarrow> 'a pyvalue \<Rightarrow>
     'a state \<Rightarrow> (error + 'out) \<times> 'a state"
  SQPequalconstrained ::
    "'a list \<Rightarrow> 'h \<Rightarrow> 'h \<Rightarrow> 'h \<Rightarrow> 'h \<Rightarrow> 'a curvature \<Rightarrow>
     'a project \<Rightarrow> int \<Rightarrow> 'a \<Rightarrow> 'a pyvalue \<Rightarrow>
     'a state \<Rightarrow> (error + 'out) \<times> 'a state"

text \<open>
  \<open>reduced_sqp\<close>. A missing \<open>SQP_MODE\<close> key raises \<open>KeyError\<close>. In the last branch nothing
  is assigned to the local name \<open>outputs\<close>, so \<open>return outputs\<close> raises
  \<open>UnboundLocalError\<close>.
\<close>

definition reduced_sqp ::
  "('a::{zero,one,plus,uminus}, 'h, 'b, 'out) backends \<Rightarrow>
   'a list \<Rightarrow> 'h \<Rightarrow> 'h \<Rightarrow> 'h \<Rightarrow> 'h \<Rightarrow> 'h \<Rightarrow> 'h \<Rightarrow> 'a curvature \<Rightarrow>
   'a project \<Rightarrow> int \<Rightarrow> 'a \<Rightarrow> 'b \<Rightarrow> 'a state \<Rightarrow> (error + 'out) \<times> 'a state" where
  "reduced_sqp env x0 func f_eqcons f_ieqcons fprime fprime_eqcons fprime_ieqcons fdotdot
      project iter acc xb st =
     (case config project ''SQP_MODE'' of
        None \<Rightarrow> (Inl KeyError, st)
      | Some SQP_MODE \<Rightarrow>
          if SQP_MODE = ''SCIPY'' then
            let opt = \<lparr>maxiter = iter, verbose = 3\<rparr>;
                equal = NonlinearConstraint feq (Finite 0) (Finite 0);
                inequal = NonlinearConstraint fieq (Finite 0) Infinity;
                st1 = st\<lparr>glob_project := Some project\<rparr>
            in minimize env f x0 ''trust-constr'' df ddf [equal, inequal] xb acc opt st1
          else if SQP_MODE = ''SQP_CVXOPT'' then
            let st1 = sys_stdout_write ''Using implemented SQP version. \<newline>'' st
            in SQPconstrained env x0 func f_eqcons f_ieqcons
                 fprime fprime_eqcons fprime_ieqcons fdotdot
                 project iter acc PyNone st1
          else if SQP_MODE = ''SQP_LES'' then
            let st1 = sys_stdout_write ''Using implemented SQP version. \<newline>'' st
            in SQPequalconstrained env x0 func f_eqcons
                 fprime fprime_eqcons fdotdot
                 project iter acc PyNone st1
          else if SQP_MODE = ''SIMPLIFIED'' then
            let st1 = sys_stdout_write ''Using simplified SQP iterations \<newline>'' st
            in SQPequalconstrained env x0 func f_eqcons
                 fprime fprime_eqcons unit_hessian
                 project iter acc PyNone st1
          else
            let st1 = sys_stdout_write ''Please choose a valid SQP_MODE! \<newline>'' st
            in (Inl UnboundLocalError, st1))"

subsection \<open>Example projects\<close>

text \<open>
  A project with the values of the end-to-end scenario: objective contributions
  \<open>[3, -1]\<close>, gradient contributions \<open>[[1, 2], [1/2, -1/2]]\<close>, inequality values
  \<open>[-2, 1/2]\<close> and no equality constraint.
\<close>

definition scenario_project :: "string \<Rightarrow> real project" where
  "scenario_project mode =
     \<lparr>config = [''SQP_MODE'' \<mapsto> mode],
      obj_f = (\<lambda>x. [3, -1]),
      obj_df = (\<lambda>x. [[1, 2], [1/2, -1/2]]),
      obj_ddf = (\<lambda>x. [[1, 2], [1/2, -1/2]]),
      con_ceq = (\<lambda>x. []),
      con_cieq = (\<lambda>x. [-2, 1/2])\<rparr>"

definition scenario_state :: "real state" where
  "scenario_state = \<lparr>stdout = [], glob_project = Some (scenario_project ''SCIPY'')\<rparr>"

text \<open>A project that reports no objective, no gradient contribution and no constraint.\<close>

definition empty_project :: "real project" where
  "empty_project =
     \<lparr>config = [''SQP_MODE'' \<mapsto> ''SCIPY''],
      obj_f = (\<lambda>x. []),
      obj_df = (\<lambda>x. []),
      obj_ddf = (\<lambda>x. []),
      con_ceq = (\<lambda>x. []),
      con_cieq = (\<lambda>x. [])\<rparr>"

definition empty_state :: "real state" where
  "empty_state = \<lparr>stdout = [], glob_project = Some empty_project\<rparr>"

text \<open>A project whose second gradient contribution is shorter than the first.\<close>

definition ragged_project :: "real project" where
  "ragged_project =
     \<lparr>config = [''SQP_MODE'' \<mapsto> ''SCIPY''],
      obj_f = (\<lambda>x. [1]),
      obj_df = (\<lambda>x. [[1, 2, 3], [10]]),
      obj_ddf = (\<lambda>x. [[1, 2, 3], [10]]),
      con_ceq = (\<lambda>x. []),
      con_cieq = (\<lambda>x. [])\<rparr>"

definition ragged_state :: "real state" where
  "ragged_state = \<lparr>stdout = [], glob_project = Some ragged_project\<rparr>"

text \<open>
  Back ends that only report how they were called: their name, the handles they received
  and the matrix their curvature handle gives at the starting point.
\<close>

definition probe_backends :: "(real, string, unit, string \<times> string list \<times> real list list) backends" where
  "probe_backends =
     \<lparr>minimize = (\<lambda>fn x0 method jac hess constraints xb acc opt st.
        (Inr (''minimize'', [], []), st)),
      SQPconstrained = (\<lambda>x0 func f_eqcons f_ieqcons fprime fprime_eqcons fprime_ieqcons
          fdotdot project iter acc extra st.
        (Inr (''SQPconstrained'',
              [func, f_eqcons, f_ieqcons, fprime, fprime_eqcons, fprime_ieqcons],
              fdotdot x0 project), st)),
      SQPequalconstrained = (\<lambda>x0 func f_eqcons fprime fprime_eqcons
          fdotdot project iter acc extra st.
        (Inr (''SQPequalconstrained'',
              [func, f_eqcons, fprime, fprime_eqcons],
              fdotdot x0 project), st))\<rparr>"

text \<open>A curvature handle that is not the identity.\<close>

definition full_hessian :: "real curvature" where
  "full_hessian x project = [[5, 5], [5, 5]]"

section \<open>Properties\<close>

subsection \<open>The objective adapter\<close>

lemma f_loop_sum_list: "f_loop obj xs = obj + sum_list (xs :: 'a::monoid_add list)"
  by (induction xs arbitrary: obj) (simp_all add: add.assoc)

text \<open>
  C1: with the project bound, the objective adapter returns the sum of the project's
  objective-contribution list at \<open>x\<close>, and \<open>0\<close> when that list is empty.
\<close>

theorem f_is_sum:
  fixes st :: "'a::monoid_add state"
  assumes "glob_project st = Some p"
  shows "f st x = Inr (sum_list (obj_f p x)) \<and> (obj_f p x = [] \<longrightarrow> f st x = Inr 0)"
  using assms by (simp add: f_def f_loop_sum_list)

theorem f_is_sum_witness:
  "glob_project scenario_state = Some (scenario_project ''SCIPY'')
   \<and> f scenario_state [0, 0] = Inr 2"
  using f_is_sum [of scenario_state "scenario_project ''SCIPY''" "[0, 0]"]
  by (simp add: scenario_state_def scenario_project_def)

subsection \<open>The gradient adapter\<close>

lemma dv_loop_ok:
  "idv + length c \<le> length dobj \<Longrightarrow>
   \<exists>r. dv_loop dobj idv c = Inr r \<and> length r = length dobj \<and>
       (\<forall>i<length dobj. r ! i =
          (if idv \<le> i \<and> i < idv + length c then dobj ! i + c ! (i - idv) else dobj ! i))"
proof (induction c arbitrary: dobj idv)
  case Nil
  then show ?case by auto
next
  case (Cons a cs)
  let ?d = "dobj[idv := dobj ! idv + a]"
  from Cons.prems have lt: "idv < length dobj" and le: "Suc idv + length cs \<le> length ?d"
    by simp_all
  from Cons.IH [OF le] obtain r where
    r: "dv_loop ?d (Suc idv) cs = Inr r" "length r = length dobj"
       "\<forall>i<length dobj. r ! i =
          (if Suc idv \<le> i \<and> i < Suc idv + length cs then ?d ! i + cs ! (i - Suc idv) else ?d ! i)"
    by auto
  have "\<forall>i<length dobj. r ! i =
          (if idv \<le> i \<and> i < idv + length (a # cs) then dobj ! i + (a # cs) ! (i - idv)
           else dobj ! i)"
  proof (intro allI impI)
    fix i assume i: "i < length dobj"
    show "r ! i = (if idv \<le> i \<and> i < idv + length (a # cs) then dobj ! i + (a # cs) ! (i - idv)
           else dobj ! i)"
    proof (cases "i = idv")
      case True
      with r(3) i show ?thesis by simp
    next
      case False
      with r(3) i show ?thesis by (auto simp: nth_Cons' Suc_diff_Suc)
    qed
  qed
  with r(1,2) lt show ?case by simp
qed

lemma dobj_loop_ok:
  fixes dobj :: "'a::monoid_add list"
  shows "\<forall>c\<in>set dl. length c \<le> length dobj \<Longrightarrow>
   \<exists>r. dobj_loop dobj dl = Inr r \<and> length r = length dobj \<and>
       (\<forall>i<length dobj. r ! i =
          dobj ! i + sum_list (map (\<lambda>c. c ! i) (filter (\<lambda>c. i < length c) dl)))"
proof (induction dl arbitrary: dobj)
  case Nil
  then show ?case by simp
next
  case (Cons c cs)
  from Cons.prems have "0 + length c \<le> length dobj" by simp
  from dv_loop_ok [OF this] obtain r1 where
    r1: "dv_loop dobj 0 c = Inr r1" "length r1 = length dobj"
        "\<forall>i<length dobj. r1 ! i = (if i < length c then dobj ! i + c ! i else dobj ! i)"
    by auto
  from Cons.prems r1(2) have "\<forall>c\<in>set cs. length c \<le> length r1" by simp
  from Cons.IH [OF this] obtain r where
    r: "dobj_loop r1 cs = Inr r" "length r = length r1"
       "\<forall>i<length r1. r ! i =
          r1 ! i + sum_list (map (\<lambda>c. c ! i) (filter (\<lambda>c. i < length c) cs))"
    by auto
  from r r1 show ?case by (simp add: add.assoc)
qed

lemma aggregate_ok:
  fixes first :: "'a::monoid_add list"
  assumes "\<forall>c\<in>set rest. length c \<le> length first"
  shows "\<exists>v. aggregate (first # rest) = Inr (NdArray v) \<and> length v = length first \<and>
           (\<forall>i<length first. v ! i =
              sum_list (map (\<lambda>c. c ! i) (filter (\<lambda>c. i < length c) (first # rest))))"
proof -
  let ?z = "replicate (length first) (0::'a)"
  from assms have "\<forall>c\<in>set (first # rest). length c \<le> length ?z" by simp
  from dobj_loop_ok [OF this] obtain r where
    r: "dobj_loop ?z (first # rest) = Inr r" "length r = length ?z"
       "\<forall>i<length ?z. r ! i =
          ?z ! i + sum_list (map (\<lambda>c. c ! i) (filter (\<lambda>c. i < length c) (first # rest)))"
    by blast
  from r(3) have "\<forall>i<length first. r ! i =
      sum_list (map (\<lambda>c. c ! i) (filter (\<lambda>c. i < length c) (first # rest)))"
    by simp
  with r(1,2) show ?thesis
    by (simp add: aggregate_def np_array_def del: dobj_loop.simps)
qed

text \<open>
  C2: with the project bound, when the gradient-contribution list at \<open>x\<close> is not empty
  and every contribution has length \<open>n\<close>, the gradient adapter returns an array of length
  \<open>n\<close> whose element \<open>i\<close> is the sum of the elements \<open>i\<close> of all contributions.
\<close>

theorem df_elementwise_sum:
  fixes st :: "'a::monoid_add state"
  assumes "glob_project st = Some p"
    and "obj_df p x \<noteq> []"
    and "\<forall>c\<in>set (obj_df p x). length c = n"
  shows "\<exists>v. df st x = Inr (NdArray v) \<and> length v = n \<and>
           (\<forall>i<n. v ! i = sum_list (map (\<lambda>c. c ! i) (obj_df p x)))"
proof -
  from assms(2) obtain first rest where dl: "obj_df p x = first # rest"
    by (cases "obj_df p x") auto
  with assms(3) have len: "length first = n" "\<forall>c\<in>set rest. length c \<le> length first"
    by simp_all
  from aggregate_ok [OF len(2)] obtain v where
    v: "aggregate (first # rest) = Inr (NdArray v)" "length v = length first"
       "\<forall>i<length first. v ! i =
          sum_list (map (\<lambda>c. c ! i) (filter (\<lambda>c. i < length c) (first # rest)))"
    by blast
  have "\<forall>i<n. filter (\<lambda>c. i < length c) (first # rest) = first # rest"
    using assms(3) dl by (auto simp: filter_id_conv)
  with v(3) len(1) have "\<forall>i<n. v ! i = sum_list (map (\<lambda>c. c ! i) (obj_df p x))"
    by (simp add: dl)
  with v(1,2) len(1) assms(1) show ?thesis
    by (simp add: df_def dl)
qed

theorem df_elementwise_sum_witness:
  "glob_project scenario_state = Some (scenario_project ''SCIPY'')
   \<and> obj_df (scenario_project ''SCIPY'') [0, 0] \<noteq> []
   \<and> map length (obj_df (scenario_project ''SCIPY'') [0, 0]) = [2, 2]
   \<and> df scenario_state [0, 0] = Inr (NdArray [3/2, 3/2])"
proof -
  have h1: "glob_project scenario_state = Some (scenario_project ''SCIPY'')"
    by (simp add: scenario_state_def)
  have h2: "obj_df (scenario_project ''SCIPY'') [0, 0] \<noteq> []"
    by (simp add: scenario_project_def)
  have h3: "\<forall>c\<in>set (obj_df (scenario_project ''SCIPY'') [0, 0]). length c = 2"
    by (simp add: scenario_project_def)
  from df_elementwise_sum [OF h1 h2 h3] obtain v where
    v: "df scenario_state [0, 0] = Inr (NdArray v)" "length v = 2"
       "\<forall>i<2. v ! i = sum_list (map (\<lambda>c. c ! i) (obj_df (scenario_project ''SCIPY'') [0, 0]))"
    by blast
  from v(3) have "v ! 0 = 3/2" "v ! 1 = 3/2"
    by (simp_all add: scenario_project_def)
  with v(2) have "v = [3/2, 3/2]"
    by (cases v; cases "tl v"; cases "tl (tl v)") auto
  have h4: "map length (obj_df (scenario_project ''SCIPY'') [0, 0]) = [2, 2]"
    by (simp add: scenario_project_def)
  from h1 h2 h4 v(1) \<open>v = [3/2, 3/2]\<close> show ?thesis by simp
qed

text \<open>
  C10: the gradient adapter does not compare the lengths of the contributions. When no
  later contribution is longer than the first, it raises nothing and returns an array of
  the first contribution's length, in which element \<open>i\<close> sums only the contributions
  that have an element \<open>i\<close>.
\<close>

theorem df_no_length_validation:
  fixes st :: "'a::monoid_add state"
  assumes "glob_project st = Some p"
    and "obj_df p x = first # rest"
    and "\<forall>c\<in>set rest. length c \<le> length first"
  shows "\<exists>v. df st x = Inr (NdArray v) \<and> length v = length first \<and>
           (\<forall>i<length first. v ! i =
              sum_list (map (\<lambda>c. c ! i) (filter (\<lambda>c. i < length c) (first # rest))))"
  using aggregate_ok [OF assms(3)] assms(1,2) by (simp add: df_def)

theorem df_no_length_validation_witness:
  "glob_project ragged_state = Some ragged_project
   \<and> obj_df ragged_project [0, 0, 0] = [1, 2, 3] # [[10]]
   \<and> map length (obj_df ragged_project [0, 0, 0]) = [3, 1]
   \<and> df ragged_state [0, 0, 0] = Inr (NdArray [11, 2, 3])"
proof -
  have h1: "glob_project ragged_state = Some ragged_project"
    by (simp add: ragged_state_def)
  have h2: "obj_df ragged_project [0, 0, 0] = [1, 2, 3] # [[10]]"
    by (simp add: ragged_project_def)
  have h3: "\<forall>c\<in>set [[10::real]]. length c \<le> length [1, 2, 3 :: real]"
    by simp
  from df_no_length_validation [OF h1 h2 h3] obtain v where
    v: "df ragged_state [0, 0, 0] = Inr (NdArray v)" "length v = 3"
       "\<forall>i<3. v ! i =
          sum_list (map (\<lambda>c. c ! i) (filter (\<lambda>c. i < length c) ([1, 2, 3] # [[10::real]])))"
    by auto
  from v(3) have "v ! 0 = 11" "v ! 1 = 2" "v ! 2 = 3"
    by simp_all
  with v(2) have "v = [11, 2, 3]"
    by (cases v; cases "tl v"; cases "tl (tl v)"; cases "tl (tl (tl v))") auto
  have h4: "map length (obj_df ragged_project [0, 0, 0]) = [3, 1]"
    by (simp add: ragged_project_def)
  from h1 h2 h4 v(1) \<open>v = [11, 2, 3]\<close> show ?thesis by simp
qed

text \<open>
  C8 as stated fails: on an empty gradient-contribution list the adapter returns no
  vector, since \<open>dobj_list[0]\<close> raises \<open>IndexError\<close>.
\<close>

theorem df_empty_list_counterexample:
  "obj_df empty_project [0] = [] \<and> df empty_state [0] = Inl IndexError"
  by (simp add: df_def aggregate_def empty_state_def empty_project_def)

text \<open>
  C8, amended: with the project bound, when the gradient-contribution list at \<open>x\<close> is
  empty the gradient adapter raises \<open>IndexError\<close> and returns no vector.
\<close>

theorem df_empty_list_raises:
  fixes st :: "'a::{zero,plus} state"
  assumes "glob_project st = Some p" and "obj_df p x = []"
  shows "df st x = Inl IndexError"
  using assms by (simp add: df_def aggregate_def)

theorem df_empty_list_raises_witness:
  "glob_project empty_state = Some empty_project
   \<and> obj_df empty_project [1, 2] = []
   \<and> df empty_state [1, 2] = Inl IndexError"
proof -
  have h1: "glob_project empty_state = Some empty_project"
    by (simp add: empty_state_def)
  have h2: "obj_df empty_project [1, 2] = []"
    by (simp add: empty_project_def)
  from df_empty_list_raises [OF h1 h2] h1 h2 show ?thesis by simp
qed

subsection \<open>The constraint adapters\<close>

text \<open>
  C3: with the project bound, when the project's inequality-constraint list at \<open>x\<close> is
  not empty, the inequality adapter returns the array of its negated elements:
  element \<open>i\<close> of the output is minus element \<open>i\<close> of the raw list.
\<close>

theorem fieq_negates:
  fixes st :: "'a::{zero,uminus} state"
  assumes "glob_project st = Some p" and "con_cieq p x \<noteq> []"
  shows "fieq st x = Inr (NdArray (map uminus (con_cieq p x)))
         \<and> (\<forall>i<length (con_cieq p x). map uminus (con_cieq p x) ! i = - (con_cieq p x ! i))"
  using assms by (simp add: fieq_def np_array_def)

theorem fieq_negates_witness:
  "glob_project scenario_state = Some (scenario_project ''SCIPY'')
   \<and> con_cieq (scenario_project ''SCIPY'') [0, 0] \<noteq> []
   \<and> fieq scenario_state [0, 0] = Inr (NdArray [2, -1/2])"
proof -
  have h1: "glob_project scenario_state = Some (scenario_project ''SCIPY'')"
    by (simp add: scenario_state_def)
  have h2: "con_cieq (scenario_project ''SCIPY'') [0, 0] \<noteq> []"
    by (simp add: scenario_project_def)
  from fieq_negates [OF h1 h2] have "fieq scenario_state [0, 0] = Inr (NdArray [2, -1/2])"
    by (simp add: scenario_project_def)
  with h1 h2 show ?thesis by simp
qed

text \<open>
  C4: with the project bound, an empty equality-constraint list makes the equality
  adapter return the zero-length array (neither \<open>None\<close> nor an empty list), and an empty
  inequality-constraint list makes the inequality adapter return the zero-length array.
\<close>

theorem empty_constraints_zero_length:
  fixes st :: "'a::{zero,uminus} state"
  assumes "glob_project st = Some p"
  shows "(con_ceq p x = [] \<longrightarrow>
            feq st x = Inr (NdArray []) \<and> feq st x \<noteq> Inr PyNone \<and> feq st x \<noteq> Inr (PyList []))
       \<and> (con_cieq p x = [] \<longrightarrow>
            fieq st x = Inr (NdArray []) \<and> fieq st x \<noteq> Inr PyNone \<and> fieq st x \<noteq> Inr (PyList []))"
  using assms by (simp add: feq_def fieq_def np_zeros_def)

theorem empty_constraints_zero_length_witness:
  "glob_project empty_state = Some empty_project
   \<and> con_ceq empty_project [1, 2] = [] \<and> con_cieq empty_project [1, 2] = []
   \<and> feq empty_state [1, 2] = Inr (NdArray [])
   \<and> fieq empty_state [1, 2] = Inr (NdArray [])"
proof -
  have h1: "glob_project empty_state = Some empty_project"
    by (simp add: empty_state_def)
  have h2: "con_ceq empty_project [1, 2] = []" "con_cieq empty_project [1, 2] = []"
    by (simp_all add: empty_project_def)
  from empty_constraints_zero_length [OF h1, of "[1, 2]"] h1 h2 show ?thesis by simp
qed

subsection \<open>The Hessian fallback\<close>

lemma np_identity_entry:
  "i < n \<Longrightarrow> j < n \<Longrightarrow> np_identity n ! i ! j = (if i = j then 1 else 0)"
  by (simp add: np_identity_def)

text \<open>
  C9: for a vector \<open>x\<close> of length \<open>n\<close> and any project, the Hessian fallback returns
  the \<open>n\<close> by \<open>n\<close> identity matrix: \<open>n\<close> rows of length \<open>n\<close>, with one on the diagonal
  and zero elsewhere. The result is the same for any other vector of that length and any
  other project.
\<close>

theorem unit_hessian_identity:
  "length (unit_hessian x project) = length x
   \<and> (\<forall>i<length x. length (unit_hessian x project ! i) = length x
        \<and> (\<forall>j<length x. unit_hessian x project ! i ! j = (if i = j then 1 else 0)))
   \<and> (length y = length x \<longrightarrow> unit_hessian y project' = unit_hessian x project)"
  by (simp add: unit_hessian_def np_size_def np_identity_entry) (simp add: np_identity_def)

theorem unit_hessian_identity_witness:
  "unit_hessian [7, 8, 9 :: real] empty_project = [[1, 0, 0], [0, 1, 0], [0, 0, 1]]
   \<and> length [4, 5, 6 :: real] = length [7, 8, 9 :: real]
   \<and> unit_hessian [4, 5, 6 :: real] ragged_project = [[1, 0, 0], [0, 1, 0], [0, 0, 1 :: real]]"
proof -
  have e: "unit_hessian [7, 8, 9 :: real] empty_project = [[1, 0, 0], [0, 1, 0], [0, 0, 1]]"
    by (simp add: unit_hessian_def np_size_def np_identity_def upt_rec)
  from unit_hessian_identity [of "[7, 8, 9 :: real]" empty_project "[4, 5, 6 :: real]" ragged_project]
  have "unit_hessian [4, 5, 6 :: real] ragged_project = unit_hessian [7, 8, 9 :: real] empty_project"
    by simp
  with e show ?thesis by simp
qed

text \<open>The sizes 1, 3 and 10, written out.\<close>

lemma unit_hessian_1: "unit_hessian [a] project = [[1]]"
  by (simp add: unit_hessian_def np_size_def np_identity_def)

lemma unit_hessian_3:
  "unit_hessian [a, b, c] project = [[1, 0, 0], [0, 1, 0], [0, 0, 1]]"
  by (simp add: unit_hessian_def np_size_def np_identity_def upt_rec)

lemma unit_hessian_10:
  "length x = 10 \<Longrightarrow> unit_hessian x project =
     [[1, 0, 0, 0, 0, 0, 0, 0, 0, 0], [0, 1, 0, 0, 0, 0, 0, 0, 0, 0],
      [0, 0, 1, 0, 0, 0, 0, 0, 0, 0], [0, 0, 0, 1, 0, 0, 0, 0, 0, 0],
      [0, 0, 0, 0, 1, 0, 0, 0, 0, 0], [0, 0, 0, 0, 0, 1, 0, 0, 0, 0],
      [0, 0, 0, 0, 0, 0, 1, 0, 0, 0], [0, 0, 0, 0, 0, 0, 0, 1, 0, 0],
      [0, 0, 0, 0, 0, 0, 0, 0, 1, 0], [0, 0, 0, 0, 0, 0, 0, 0, 0, 1]]"
  by (simp add: unit_hessian_def np_size_def np_identity_def upt_rec numeral_eq_Suc)

subsection \<open>The dispatcher\<close>

text \<open>
  C5: in mode \<open>SIMPLIFIED\<close> the dispatcher writes its message and returns what the
  equality-only back end gives when called with \<open>unit_hessian\<close> as its curvature handle;
  the supplied curvature handle is not passed on: replacing it by any other changes
  nothing.
\<close>

theorem simplified_uses_unit_hessian:
  assumes "config project ''SQP_MODE'' = Some ''SIMPLIFIED''"
  shows "reduced_sqp env x0 func f_eqcons f_ieqcons fprime fprime_eqcons fprime_ieqcons fdotdot
           project iter acc xb st =
         SQPequalconstrained env x0 func f_eqcons fprime fprime_eqcons unit_hessian
           project iter acc PyNone
           (sys_stdout_write ''Using simplified SQP iterations \<newline>'' st)
       \<and> reduced_sqp env x0 func f_eqcons f_ieqcons fprime fprime_eqcons fprime_ieqcons fdotdot
           project iter acc xb st =
         reduced_sqp env x0 func f_eqcons f_ieqcons fprime fprime_eqcons fprime_ieqcons fdotdot'
           project iter acc xb st"
  using assms by (simp add: reduced_sqp_def)

theorem simplified_uses_unit_hessian_witness:
  "config (scenario_project ''SIMPLIFIED'') ''SQP_MODE'' = Some ''SIMPLIFIED''
   \<and> reduced_sqp probe_backends [1, 2] ''func'' ''f_eqcons'' ''f_ieqcons''
        ''fprime'' ''fprime_eqcons'' ''fprime_ieqcons'' full_hessian
        (scenario_project ''SIMPLIFIED'') 10 (1/100) () \<lparr>stdout = [], glob_project = None\<rparr>
     = (Inr (''SQPequalconstrained'',
             [''func'', ''f_eqcons'', ''fprime'', ''fprime_eqcons''],
             [[1, 0], [0, 1]]),
        \<lparr>stdout = ''Using simplified SQP iterations \<newline>'', glob_project = None\<rparr>)"
proof -
  have h: "config (scenario_project ''SIMPLIFIED'') ''SQP_MODE'' = Some ''SIMPLIFIED''"
    by (simp add: scenario_project_def)
  from simplified_uses_unit_hessian [OF h, of probe_backends "[1, 2]" "''func''" "''f_eqcons''"
      "''f_ieqcons''" "''fprime''" "''fprime_eqcons''" "''fprime_ieqcons''" full_hessian
      10 "1/100" "()" "\<lparr>stdout = [], glob_project = None\<rparr>"] h
  show ?thesis
    by (simp add: probe_backends_def sys_stdout_write_def unit_hessian_def np_size_def
        np_identity_def upt_rec)
qed

text \<open>
  C6: in mode \<open>SQP_LES\<close> the inequality-constraint handle and the inequality-gradient
  handle are not used: for any two values of them, all other arguments equal, the
  dispatcher gives the same result and the same state, namely those of the equality-only
  back end called without them.
\<close>

theorem sqp_les_ignores_inequality_handles:
  assumes "config project ''SQP_MODE'' = Some ''SQP_LES''"
  shows "reduced_sqp env x0 func f_eqcons f_ieqcons fprime fprime_eqcons fprime_ieqcons fdotdot
           project iter acc xb st =
         reduced_sqp env x0 func f_eqcons f_ieqcons' fprime fprime_eqcons fprime_ieqcons' fdotdot
           project iter acc xb st
       \<and> reduced_sqp env x0 func f_eqcons f_ieqcons fprime fprime_eqcons fprime_ieqcons fdotdot
           project iter acc xb st =
         SQPequalconstrained env x0 func f_eqcons fprime fprime_eqcons fdotdot
           project iter acc PyNone
           (sys_stdout_write ''Using implemented SQP version. \<newline>'' st)"
  using assms by (simp add: reduced_sqp_def)

theorem sqp_les_ignores_inequality_handles_witness:
  "config (scenario_project ''SQP_LES'') ''SQP_MODE'' = Some ''SQP_LES''
   \<and> reduced_sqp probe_backends [1, 2] ''func'' ''f_eqcons'' ''f_ieqcons''
        ''fprime'' ''fprime_eqcons'' ''fprime_ieqcons'' full_hessian
        (scenario_project ''SQP_LES'') 10 (1/100) () \<lparr>stdout = [], glob_project = None\<rparr>
     = reduced_sqp probe_backends [1, 2] ''func'' ''f_eqcons'' ''other''
        ''fprime'' ''fprime_eqcons'' ''other_prime'' full_hessian
        (scenario_project ''SQP_LES'') 10 (1/100) () \<lparr>stdout = [], glob_project = None\<rparr>
   \<and> reduced_sqp probe_backends [1, 2] ''func'' ''f_eqcons'' ''f_ieqcons''
        ''fprime'' ''fprime_eqcons'' ''fprime_ieqcons'' full_hessian
        (scenario_project ''SQP_LES'') 10 (1/100) () \<lparr>stdout = [], glob_project = None\<rparr>
     = (Inr (''SQPequalconstrained'',
             [''func'', ''f_eqcons'', ''fprime'', ''fprime_eqcons''],
             [[5, 5], [5, 5]]),
        \<lparr>stdout = ''Using implemented SQP version. \<newline>'', glob_project = None\<rparr>)"
proof -
  let ?st = "\<lparr>stdout = [], glob_project = None\<rparr> :: real state"
  have h: "config (scenario_project ''SQP_LES'') ''SQP_MODE'' = Some ''SQP_LES''"
    by (simp add: scenario_project_def)
  note t = sqp_les_ignores_inequality_handles [OF h, of probe_backends "[1, 2]" "''func''"
      "''f_eqcons''" "''f_ieqcons''" "''fprime''" "''fprime_eqcons''" "''fprime_ieqcons''"
      full_hessian 10 "1/100" "()" ?st "''other''" "''other_prime''"]
  have e: "SQPequalconstrained probe_backends [1, 2] ''func'' ''f_eqcons''
        ''fprime'' ''fprime_eqcons'' full_hessian
        (scenario_project ''SQP_LES'') 10 (1/100) PyNone
        (sys_stdout_write ''Using implemented SQP version. \<newline>'' ?st)
     = (Inr (''SQPequalconstrained'',
             [''func'', ''f_eqcons'', ''fprime'', ''fprime_eqcons''],
             [[5, 5], [5, 5]]),
        \<lparr>stdout = ''Using implemented SQP version. \<newline>'', glob_project = None\<rparr>)"
    by (simp add: probe_backends_def sys_stdout_write_def full_hessian_def)
  from t have t1: "reduced_sqp probe_backends [1, 2] ''func'' ''f_eqcons'' ''f_ieqcons''
        ''fprime'' ''fprime_eqcons'' ''fprime_ieqcons'' full_hessian
        (scenario_project ''SQP_LES'') 10 (1/100) () ?st
     = reduced_sqp probe_backends [1, 2] ''func'' ''f_eqcons'' ''other''
        ''fprime'' ''fprime_eqcons'' ''other_prime'' full_hessian
        (scenario_project ''SQP_LES'') 10 (1/100) () ?st"
    by (rule conjunct1)
  from t have t2: "reduced_sqp probe_backends [1, 2] ''func'' ''f_eqcons'' ''f_ieqcons''
        ''fprime'' ''fprime_eqcons'' ''fprime_ieqcons'' full_hessian
        (scenario_project ''SQP_LES'') 10 (1/100) () ?st
     = SQPequalconstrained probe_backends [1, 2] ''func'' ''f_eqcons''
        ''fprime'' ''fprime_eqcons'' full_hessian
        (scenario_project ''SQP_LES'') 10 (1/100) PyNone
        (sys_stdout_write ''Using implemented SQP version. \<newline>'' ?st)"
    by (rule conjunct2)
  from t2 e have t3: "reduced_sqp probe_backends [1, 2] ''func'' ''f_eqcons'' ''f_ieqcons''
        ''fprime'' ''fprime_eqcons'' ''fprime_ieqcons'' full_hessian
        (scenario_project ''SQP_LES'') 10 (1/100) () ?st
     = (Inr (''SQPequalconstrained'',
             [''func'', ''f_eqcons'', ''fprime'', ''fprime_eqcons''],
             [[5, 5], [5, 5]]),
        \<lparr>stdout = ''Using implemented SQP version. \<newline>'', glob_project = None\<rparr>)"
    by (rule trans)
  from h t1 t3 show ?thesis by (intro conjI)
qed

text \<open>
  C7: for a mode that is none of \<open>SCIPY\<close>, \<open>SQP_CVXOPT\<close>, \<open>SQP_LES\<close> and
  \<open>SIMPLIFIED\<close>, the dispatcher writes the invalid-configuration message and calls no
  back end (the outcome does not depend on them). It does not then return to its caller
  without a result, as C7 has it: the last branch assigns nothing to the local name
  \<open>outputs\<close>, so \<open>return outputs\<close> raises \<open>UnboundLocalError\<close> and the call ends in
  that exception.
\<close>

theorem unrecognized_mode_no_backend:
  assumes "config project ''SQP_MODE'' = Some mode"
    and "mode \<noteq> ''SCIPY''" and "mode \<noteq> ''SQP_CVXOPT''"
    and "mode \<noteq> ''SQP_LES''" and "mode \<noteq> ''SIMPLIFIED''"
  shows "reduced_sqp env x0 func f_eqcons f_ieqcons fprime fprime_eqcons fprime_ieqcons fdotdot
           project iter acc xb st =
         (Inl UnboundLocalError,
          st\<lparr>stdout := stdout st @ ''Please choose a valid SQP_MODE! \<newline>''\<rparr>)"
  using assms by (simp add: reduced_sqp_def sys_stdout_write_def)

theorem unrecognized_mode_no_backend_witness:
  "config (scenario_project ''BOGUS'') ''SQP_MODE'' = Some ''BOGUS''
   \<and> ''BOGUS'' \<noteq> ''SCIPY'' \<and> ''BOGUS'' \<noteq> ''SQP_CVXOPT''
   \<and> ''BOGUS'' \<noteq> ''SQP_LES'' \<and> ''BOGUS'' \<noteq> ''SIMPLIFIED''
   \<and> reduced_sqp probe_backends [1, 2] ''func'' ''f_eqcons'' ''f_ieqcons''
        ''fprime'' ''fprime_eqcons'' ''fprime_ieqcons'' full_hessian
        (scenario_project ''BOGUS'') 10 (1/100) () \<lparr>stdout = [], glob_project = None\<rparr>
     = (Inl UnboundLocalError,
        \<lparr>stdout = ''Please choose a valid SQP_MODE! \<newline>'', glob_project = None\<rparr>)"
proof -
  have h: "config (scenario_project ''BOGUS'') ''SQP_MODE'' = Some ''BOGUS''"
    by (simp add: scenario_project_def)
  have n: "''BOGUS'' \<noteq> ''SCIPY''" "''BOGUS'' \<noteq> ''SQP_CVXOPT''"
    "''BOGUS'' \<noteq> ''SQP_LES''" "''BOGUS'' \<noteq> ''SIMPLIFIED''"
    by simp_all
  from unrecognized_mode_no_backend [OF h n, of probe_backends "[1, 2]" "''func''"
      "''f_eqcons''" "''f_ieqcons''" "''fprime''" "''fprime_eqcons''" "''fprime_ieqcons''"
      full_hessian 10 "1/100" "()" "\<lparr>stdout = [], glob_project = None\<rparr>"] h n
  show ?thesis by simp
qed

end
